theory Spec2Isabelle
  imports Main "HOL-Library.AList"
begin

section \<open>Mini-LISP interpreter (minilisp.py): data model\<close>

text \<open>
  An S-expression as \<open>read_sexp\<close> builds it: a Python \<open>bool\<close>, \<open>int\<close>, \<open>str\<close> or a
  nested \<open>list\<close>.
\<close>

datatype sexp = SBool bool | SInt int | SSym string | SList "sexp list"

text \<open>
  AST nodes (classes \<open>Val\<close>, \<open>Var\<close>, \<open>Def\<close>, \<open>If\<close>, \<open>Fun\<close>, \<open>Call\<close>, \<open>Op\<close>, \<open>Print\<close>)
  and run-time values. \<open>Def\<close> and \<open>Fun\<close> store the name and the parameter list exactly as the
  S-expression reader delivered them; the builder never inspects them. A value is a Python
  \<open>int\<close> (unbounded), a \<open>bool\<close>, a \<open>Closure\<close> holding a reference to an \<open>Env\<close> object (an
  address of the store), or \<open>None\<close> (what \<open>Def.eval\<close> and \<open>Print.eval\<close> return).
\<close>

datatype node =
    Val val
  | Var string
  | Def sexp node
  | If node node node
  | Fun "sexp list" "node list"
  | Call node "node list"
  | Op string "node list"
  | Print bool node
and val =
    VInt int
  | VBool bool
  | Closure "sexp list" "node list" nat
  | VNone

text \<open>
  Keys of the dictionary underlying \<open>Env\<close>. Python hashes and compares \<open>True\<close> like \<open>1\<close> and
  \<open>False\<close> like \<open>0\<close>; a list is unhashable (\<open>TypeError\<close>).
\<close>

datatype key = KStr string | KNum int

fun hashkey :: "sexp \<Rightarrow> key option" where
  "hashkey (SSym x) = Some (KStr x)"
| "hashkey (SInt i) = Some (KNum i)"
| "hashkey (SBool b) = Some (KNum (if b then 1 else 0))"
| "hashkey (SList xs) = None"

text \<open>
  Class \<open>Env\<close>: a dictionary (kept in insertion order) and the parent link \<open>par\<close>. The store
  is the list of all \<open>Env\<close> objects created so far; an object's address is its index.
  The program's observable output is the list of lines printed.
\<close>

record env =
  vars :: "(key \<times> val) list"
  par :: "nat option"

record state =
  heap :: "env list"
  out :: "string list"

text \<open>
  Outcome of a Python call: a returned value, \<open>sys.exit(0)\<close> (after an error message has
  been printed), an uncaught Python exception, or exhausted fuel (the call did not return
  within the given recursion depth).
\<close>

datatype pyexn = TypeError | OverflowError | ValueError | IndexError

datatype 'a res = Ret 'a | Exit | Raise pyexn | Timeout

definition bind :: "'a res \<times> state \<Rightarrow> ('a \<Rightarrow> state \<Rightarrow> 'b res \<times> state) \<Rightarrow> 'b res \<times> state" where
  "bind m f = (case m of
      (Ret v, s) \<Rightarrow> f v s
    | (Exit, s) \<Rightarrow> (Exit, s)
    | (Raise x, s) \<Rightarrow> (Raise x, s)
    | (Timeout, s) \<Rightarrow> (Timeout, s))"

subsection \<open>Text conversions used by the messages\<close>

text \<open>Decimal digits of a non-negative integer, as \<open>str\<close> prints them.\<close>

function digits :: "int \<Rightarrow> string" where
  "digits n =
     (if n < 10 then [''0123456789'' ! nat n]
      else digits (n div 10) @ [''0123456789'' ! nat (n mod 10)])"
  by pat_completeness auto
termination
  by (relation "measure nat") auto

definition string_of_int :: "int \<Rightarrow> string" where
  "string_of_int i = (if i < 0 then ''-'' @ digits (- i) else digits i)"

definition string_of_nat :: "nat \<Rightarrow> string" where
  "string_of_nat n = digits (int n)"

fun join :: "string \<Rightarrow> string list \<Rightarrow> string" where
  "join sep [] = []"
| "join sep [x] = x"
| "join sep (x # y # ys) = x @ sep @ join sep (y # ys)"

definition quoted :: "string \<Rightarrow> string" where
  "quoted x = [CHR 0x27] @ x @ [CHR 0x27]"

text \<open>\<open>str\<close> and \<open>repr\<close> of an S-expression, as an f-string renders it.\<close>

fun pyrepr :: "sexp \<Rightarrow> string" where
  "pyrepr (SBool b) = (if b then ''True'' else ''False'')"
| "pyrepr (SInt i) = string_of_int i"
| "pyrepr (SSym x) = quoted x"
| "pyrepr (SList xs) = ''['' @ join '', '' (map pyrepr xs) @ '']''"

fun pystr :: "sexp \<Rightarrow> string" where
  "pystr (SSym x) = x"
| "pystr s = pyrepr s"

subsection \<open>Error exits and type checks\<close>

text \<open>\<open>error_runtime(m)\<close>: print \<open>m\<close>, then \<open>sys.exit(0)\<close>.\<close>

definition error_runtime :: "string \<Rightarrow> state \<Rightarrow> 'a res \<times> state" where
  "error_runtime m s = (Exit, s\<lparr>out := out s @ [m]\<rparr>)"

fun typeof :: "val \<Rightarrow> string" where
  "typeof (VInt i) = ''number''"
| "typeof (VBool b) = ''boolean''"
| "typeof v = ''function''"

fun check_num :: "val \<Rightarrow> state \<Rightarrow> int res \<times> state" where
  "check_num (VInt i) s = (Ret i, s)"
| "check_num v s = error_runtime (''Type Error: Expect 'number' but got '' @ quoted (typeof v) @ ''.'') s"

fun check_bool :: "val \<Rightarrow> state \<Rightarrow> bool res \<times> state" where
  "check_bool (VBool b) s = (Ret b, s)"
| "check_bool v s = error_runtime (''Type Error: Expect 'boolean' but got '' @ quoted (typeof v) @ ''.'') s"


subsection \<open>Python's float arithmetic on integers\<close>

text \<open>
  \<open>Op.eval\<close> computes \<open>/\<close> as \<open>int(a / b)\<close> and \<open>mod\<close> as \<open>int(math.fmod(a, b))\<close>. Both go
  through IEEE binary64: \<open>a / b\<close> on two \<open>int\<close>s is the true quotient correctly rounded to a
  double (53 significant bits, round half to even; \<open>OverflowError\<close> when the rounded result
  reaches \<open>2^1024\<close>), and \<open>math.fmod\<close> first converts each argument to a double in the same
  way. \<open>fmod\<close> itself is exact on doubles, and \<open>int\<close> of a double truncates toward zero.
  The functions below compute these results on integers.
\<close>

text \<open>\<open>n.bit_length()\<close> for \<open>n \<ge> 0\<close>.\<close>

function bit_length :: "int \<Rightarrow> nat" where
  "bit_length n = (if n \<le> 0 then 0 else Suc (bit_length (n div 2)))"
  by pat_completeness auto
termination
  by (relation "measure nat") auto

text \<open>
  The integer nearest to \<open>num / den\<close> (for \<open>num \<ge> 0\<close> and \<open>den > 0\<close>), a tie going to the
  even neighbour.
\<close>

definition round_half_even :: "int \<Rightarrow> int \<Rightarrow> int" where
  "round_half_even num den =
     (let q = num div den; r = num mod den
      in if 2 * r < den then q
         else if den < 2 * r then q + 1
         else if even q then q else q + 1)"

text \<open>\<open>float(n)\<close> for \<open>n \<ge> 0\<close>, as the integer it denotes; \<open>None\<close> is \<open>OverflowError\<close>.\<close>

definition float_of_mag :: "int \<Rightarrow> int option" where
  "float_of_mag n =
     (let sh = bit_length n - 53;
          x = round_half_even n (2 ^ sh) * 2 ^ sh
      in if 2 ^ 1024 \<le> x then None else Some x)"

definition float_of_int :: "int \<Rightarrow> int option" where
  "float_of_int i = map_option (\<lambda>x. sgn i * x) (float_of_mag \<bar>i\<bar>)"

text \<open>
  \<open>int(a / b)\<close> for \<open>a \<ge> 0\<close> and \<open>b > 0\<close>. With \<open>2^e \<le> a / b < 2^(e + 1)\<close> the double nearest
  to the quotient is \<open>m * 2^(- sh)\<close>, where \<open>sh = 52 - max e (- 1022)\<close> and \<open>m\<close> is
  \<open>a * 2^sh / b\<close> rounded half to even.
\<close>

definition truediv_trunc_mag :: "int \<Rightarrow> int \<Rightarrow> int option" where
  "truediv_trunc_mag a b =
     (if a = 0 then Some 0
      else
        let d = int (bit_length a) - int (bit_length b);
            e = (if (if 0 \<le> d then b * 2 ^ nat d \<le> a else b \<le> a * 2 ^ nat (- d)) then d else d - 1);
            sh = 52 - max e (- 1022)
        in if 0 \<le> sh then Some (round_half_even (a * 2 ^ nat sh) b div 2 ^ nat sh)
           else
             let x = round_half_even a (b * 2 ^ nat (- sh)) * 2 ^ nat (- sh)
             in if 2 ^ 1024 \<le> x then None else Some x)"

definition int_truediv :: "int \<Rightarrow> int \<Rightarrow> int option" where
  "int_truediv a b = map_option (\<lambda>q. sgn a * sgn b * q) (truediv_trunc_mag \<bar>a\<bar> \<bar>b\<bar>)"

text \<open>
  \<open>int(math.fmod(a, b))\<close>: \<open>OverflowError\<close> when an argument does not fit a double,
  \<open>ValueError\<close> (math domain error) when the divisor is zero.
\<close>

definition int_fmod :: "int \<Rightarrow> int \<Rightarrow> pyexn + int" where
  "int_fmod a b =
     (case float_of_int a of
        None \<Rightarrow> Inl OverflowError
      | Some x \<Rightarrow>
          (case float_of_int b of
             None \<Rightarrow> Inl OverflowError
           | Some y \<Rightarrow> if y = 0 then Inl ValueError else Inr (sgn x * (\<bar>x\<bar> mod \<bar>y\<bar>))))"

subsection \<open>Primitive operators on evaluated operands\<close>

text \<open>\<open>vs[i]\<close> on a Python list.\<close>

definition item :: "'a list \<Rightarrow> nat \<Rightarrow> state \<Rightarrow> 'a res \<times> state" where
  "item vs i s = (if i < length vs then (Ret (vs ! i), s) else (Raise IndexError, s))"

text \<open>\<open>sum(check_num(x) for x in vs)\<close> and the product loop \<open>r *= check_num(x)\<close>.\<close>

fun sum_nums :: "val list \<Rightarrow> int \<Rightarrow> state \<Rightarrow> int res \<times> state" where
  "sum_nums [] acc s = (Ret acc, s)"
| "sum_nums (x # xs) acc s = bind (check_num x s) (\<lambda>i s1. sum_nums xs (acc + i) s1)"

fun prod_nums :: "val list \<Rightarrow> int \<Rightarrow> state \<Rightarrow> int res \<times> state" where
  "prod_nums [] r s = (Ret r, s)"
| "prod_nums (x # xs) r s = bind (check_num x s) (\<lambda>i s1. prod_nums xs (r * i) s1)"

text \<open>\<open>all(check_num(x) == check_num(vs[0]) for x in vs)\<close>; \<open>all\<close> stops at the first \<open>False\<close>.\<close>

fun all_eq :: "val list \<Rightarrow> val \<Rightarrow> state \<Rightarrow> bool res \<times> state" where
  "all_eq [] v0 s = (Ret True, s)"
| "all_eq (x # xs) v0 s =
     bind (check_num x s) (\<lambda>a s1.
     bind (check_num v0 s1) (\<lambda>b s2.
       if a = b then all_eq xs v0 s2 else (Ret False, s2)))"

text \<open>
  The part of \<open>Op.eval\<close> after \<open>vs = [a.eval(e) for a in self.args]\<close>. An operator string
  matching no branch falls off the end of the method, which returns \<open>None\<close>.
\<close>

definition apply_op :: "string \<Rightarrow> val list \<Rightarrow> state \<Rightarrow> val res \<times> state" where
  "apply_op op vs s =
     (if op = ''not'' then
        bind (item vs 0 s) (\<lambda>v s1. bind (check_bool v s1) (\<lambda>b s2. (Ret (VBool (\<not> b)), s2)))
      else if op = ''+'' then bind (sum_nums vs 0 s) (\<lambda>r s1. (Ret (VInt r), s1))
      else if op = ''*'' then bind (prod_nums vs 1 s) (\<lambda>r s1. (Ret (VInt r), s1))
      else
        bind (item vs 0 s) (\<lambda>v1 s1.
        bind (item vs 1 s1) (\<lambda>v2 s2.
          if op = ''-'' then
            bind (check_num v1 s2) (\<lambda>a s3. bind (check_num v2 s3) (\<lambda>b s4. (Ret (VInt (a - b)), s4)))
          else if op = ''/'' then
            bind (check_num v2 s2) (\<lambda>b s3.
              if b = 0 then error_runtime ''Error: Division by zero'' s3
              else bind (check_num v1 s3) (\<lambda>a s4.
                (case int_truediv a b of
                   None \<Rightarrow> (Raise OverflowError, s4)
                 | Some q \<Rightarrow> (Ret (VInt q), s4))))
          else if op = ''mod'' then
            bind (check_num v1 s2) (\<lambda>a s3. bind (check_num v2 s3) (\<lambda>b s4.
              (case int_fmod a b of
                 Inl x \<Rightarrow> (Raise x, s4)
               | Inr r \<Rightarrow> (Ret (VInt r), s4))))
          else if op = ''>'' then
            bind (check_num v1 s2) (\<lambda>a s3. bind (check_num v2 s3) (\<lambda>b s4. (Ret (VBool (b < a)), s4)))
          else if op = ''<'' then
            bind (check_num v1 s2) (\<lambda>a s3. bind (check_num v2 s3) (\<lambda>b s4. (Ret (VBool (a < b)), s4)))
          else if op = ''='' then
            bind (all_eq vs (vs ! 0) s2) (\<lambda>r s3. (Ret (VBool r), s3))
          else (Ret VNone, s2))))"

text \<open>The arity check at the head of \<open>Op.eval\<close>, made before any operand is evaluated.\<close>

definition arity_check :: "string \<Rightarrow> nat \<Rightarrow> state \<Rightarrow> unit res \<times> state" where
  "arity_check op cnt s =
     (if op \<in> set [''+'', ''*'', ''='', ''and'', ''or''] then
        (if cnt < 2 then
           error_runtime (''Error: Need at least 2 arguments, but got '' @ string_of_nat cnt @ ''.'') s
         else (Ret (), s))
      else if op \<in> set [''-'', ''/'', ''mod'', ''>'', ''<''] then
        (if cnt \<noteq> 2 then
           error_runtime (''Error: Need 2 arguments, but got '' @ string_of_nat cnt @ ''.'') s
         else (Ret (), s))
      else if op = ''not'' then
        (if cnt \<noteq> 1 then
           error_runtime (''Error: Need 1 argument, but got '' @ string_of_nat cnt @ ''.'') s
         else (Ret (), s))
      else (Ret (), s))"

subsection \<open>Environments in the store\<close>

text \<open>\<open>Env(par)\<close>: a new, empty dictionary; its address is the next free index.\<close>

definition env_new :: "nat option \<Rightarrow> state \<Rightarrow> nat \<times> state" where
  "env_new p s = (length (heap s), s\<lparr>heap := heap s @ [\<lparr>vars = [], par = p\<rparr>]\<rparr>)"

text \<open>\<open>n in e\<close> and \<open>e[n] = v\<close> on the \<open>Env\<close> at address \<open>a\<close>.\<close>

definition env_has :: "nat \<Rightarrow> key \<Rightarrow> state \<Rightarrow> bool" where
  "env_has a k s = (map_of (vars (heap s ! a)) k \<noteq> None)"

definition env_set :: "nat \<Rightarrow> key \<Rightarrow> val \<Rightarrow> state \<Rightarrow> state" where
  "env_set a k v s =
     s\<lparr>heap := (heap s)[a := (heap s ! a)\<lparr>vars := AList.update k v (vars (heap s ! a))\<rparr>]\<rparr>"

text \<open>
  \<open>Env.find\<close>. The test \<open>if self.par:\<close> is Python truthiness of the parent object, a
  \<open>dict\<close> subclass: a parent that exists but holds no binding counts as false, and the
  search ends there.
\<close>

fun find :: "nat \<Rightarrow> nat \<Rightarrow> string \<Rightarrow> state \<Rightarrow> val res \<times> state" where
  "find 0 a n s = (Timeout, s)"
| "find (Suc fuel) a n s =
     (case map_of (vars (heap s ! a)) (KStr n) of
        Some v \<Rightarrow> (Ret v, s)
      | None \<Rightarrow>
          (case par (heap s ! a) of
             Some p \<Rightarrow>
               if vars (heap s ! p) \<noteq> [] then find fuel p n s
               else error_runtime (''Error: Variable '' @ n @ '' not defined'') s
           | None \<Rightarrow> error_runtime (''Error: Variable '' @ n @ '' not defined'') s))"

section \<open>The evaluator\<close>

text \<open>
  The loops of \<open>Op.eval\<close> and \<open>Call.eval\<close>, over the \<open>eval\<close> method \<open>ev\<close> of the nodes they
  visit: \<open>eval_list\<close> is the comprehension \<open>[a.eval(e) for a in self.args]\<close>, \<open>eval_all\<close>
  and \<open>eval_any\<close> are \<open>all(check_bool(a.eval(e)) for a in self.args)\<close> and its \<open>any\<close>
  twin (both stop at the first deciding operand), \<open>bind_args\<close> is
  \<open>for n, arg in zip(fn.args, self.args): new_e[n] = arg.eval(e)\<close> (the right-hand side is
  evaluated before the key is hashed), and \<open>eval_body\<close> is
  \<open>for stmt in fn.body: res = stmt.eval(new_e)\<close>.
\<close>

type_synonym evaluator = "node \<Rightarrow> nat \<Rightarrow> state \<Rightarrow> val res \<times> state"

fun eval_list :: "evaluator \<Rightarrow> node list \<Rightarrow> nat \<Rightarrow> state \<Rightarrow> val list res \<times> state" where
  "eval_list ev [] e s = (Ret [], s)"
| "eval_list ev (a # as) e s =
     bind (ev a e s) (\<lambda>v s1.
     bind (eval_list ev as e s1) (\<lambda>vs s2. (Ret (v # vs), s2)))"

fun eval_all :: "evaluator \<Rightarrow> node list \<Rightarrow> nat \<Rightarrow> state \<Rightarrow> val res \<times> state" where
  "eval_all ev [] e s = (Ret (VBool True), s)"
| "eval_all ev (a # as) e s =
     bind (ev a e s) (\<lambda>v s1.
     bind (check_bool v s1) (\<lambda>b s2.
       if b then eval_all ev as e s2 else (Ret (VBool False), s2)))"

fun eval_any :: "evaluator \<Rightarrow> node list \<Rightarrow> nat \<Rightarrow> state \<Rightarrow> val res \<times> state" where
  "eval_any ev [] e s = (Ret (VBool False), s)"
| "eval_any ev (a # as) e s =
     bind (ev a e s) (\<lambda>v s1.
     bind (check_bool v s1) (\<lambda>b s2.
       if b then (Ret (VBool True), s2) else eval_any ev as e s2))"

fun bind_args :: "evaluator \<Rightarrow> sexp list \<Rightarrow> node list \<Rightarrow> nat \<Rightarrow> nat \<Rightarrow> state \<Rightarrow> unit res \<times> state" where
  "bind_args ev (p # ps) (a # as) e new_e s =
     bind (ev a e s) (\<lambda>v s1.
       (case hashkey p of
          None \<Rightarrow> (Raise TypeError, s1)
        | Some k \<Rightarrow> bind_args ev ps as e new_e (env_set new_e k v s1)))"
| "bind_args ev ps as e new_e s = (Ret (), s)"

fun eval_body :: "evaluator \<Rightarrow> node list \<Rightarrow> nat \<Rightarrow> val \<Rightarrow> state \<Rightarrow> val res \<times> state" where
  "eval_body ev [] e r s = (Ret r, s)"
| "eval_body ev (st # sts) e r s =
     bind (ev st e s) (\<lambda>r1 s1. eval_body ev sts e r1 s1)"

text \<open>
  The \<open>eval\<close> methods, with the environment passed as an address and the store threaded
  through. Every nested Python call of \<open>eval\<close> uses one unit of fuel.
\<close>

fun eval :: "nat \<Rightarrow> node \<Rightarrow> nat \<Rightarrow> state \<Rightarrow> val res \<times> state" where
  "eval 0 nd e s = (Timeout, s)"
| "eval (Suc fuel) (Val v) e s = (Ret v, s)"
| "eval (Suc fuel) (Var n) e s = find fuel e n s"
| "eval (Suc fuel) (Def n v) e s =
     (case hashkey n of
        None \<Rightarrow> (Raise TypeError, s)
      | Some k \<Rightarrow>
          if env_has e k s then
            error_runtime (''Error: Redefining '' @ pystr n @ '' is not allowed.'') s
          else bind (eval fuel v e s) (\<lambda>r s1. (Ret VNone, env_set e k r s1)))"
| "eval (Suc fuel) (If t a b) e s =
     bind (eval fuel t e s) (\<lambda>v s1.
     bind (check_bool v s1) (\<lambda>c s2.
       if c then eval fuel a e s2 else eval fuel b e s2))"
| "eval (Suc fuel) (Fun args body) e s = (Ret (Closure args body e), s)"
| "eval (Suc fuel) (Call f args) e s =
     bind (eval fuel f e s) (\<lambda>fn s1.
       (case fn of
          Closure ps body cenv \<Rightarrow>
            if length args \<noteq> length ps then
              error_runtime (''Need '' @ string_of_nat (length ps) @ '' arguments, but got ''
                               @ string_of_nat (length args) @ ''.'') s1
            else
              (case env_new (Some cenv) s1 of
                 (new_e, s2) \<Rightarrow>
                   bind (bind_args (eval fuel) ps args e new_e s2) (\<lambda>u s3.
                     eval_body (eval fuel) body new_e VNone s3))
        | _ \<Rightarrow>
            error_runtime (''Type Error: Expect 'function' but got '' @ quoted (typeof fn) @ ''.'') s1))"
| "eval (Suc fuel) (Op op args) e s =
     bind (arity_check op (length args) s) (\<lambda>u s1.
       if op = ''and'' then eval_all (eval fuel) args e s1
       else if op = ''or'' then eval_any (eval fuel) args e s1
       else bind (eval_list (eval fuel) args e s1) (\<lambda>vs s2. apply_op op vs s2))"
| "eval (Suc fuel) (Print is_n exp) e s =
     bind (eval fuel exp e s) (\<lambda>v s1.
       if is_n then
         bind (check_num v s1) (\<lambda>i s2. (Ret VNone, s2\<lparr>out := out s2 @ [string_of_int i]\<rparr>))
       else
         bind (check_bool v s1) (\<lambda>b s2.
           (Ret VNone, s2\<lparr>out := out s2 @ [if b then ''#t'' else ''#f'']\<rparr>)))"

text \<open>
  The main program: \<open>env = Env()\<close> creates the global environment (address 0, no parent),
  then \<open>for n in nodes: n.eval(env)\<close> evaluates the top-level nodes in order.
\<close>

definition init_state :: state where
  "init_state = \<lparr>heap = [\<lparr>vars = [], par = None\<rparr>], out = []\<rparr>"

definition run :: "nat \<Rightarrow> node list \<Rightarrow> val res \<times> state" where
  "run fuel nodes = eval_body (eval fuel) nodes 0 VNone init_state"

section \<open>Lexer\<close>

text \<open>
  \<open>tokenize\<close> is \<open>re.findall\<close> with the alternation
  \<^verbatim>\<open>\(|\)|#t|#f|0|-?[1-9]\d*|[a-z][a-z0-9\-]*|[\+\*/<>=]|mod|and|or|not|-\<close>.
  At each position the alternatives are tried in the order written and the first that
  matches yields the lexeme; where none matches, \<open>findall\<close> moves on by one character.
  The alternatives \<open>mod\<close>, \<open>and\<close>, \<open>or\<close>, \<open>not\<close> start with a lowercase letter, where
  the identifier alternative before them always matches, so they never fire.

  The source text is a Python \<open>str\<close>: a list of Unicode code points (\<open>ord_of\<close> is Python's
  \<open>ord\<close> on the characters written in this theory, \<open>text_of\<close> maps it over a literal).
  The classes \<open>[1-9]\<close>, \<open>[a-z]\<close> and \<open>[a-z0-9\-]\<close> are ranges of ASCII code points. \<open>\d\<close>
  in a \<open>str\<close> pattern matches every Unicode decimal digit (general category Nd): the
  ASCII digits and, beyond ASCII, what the Unicode database of the running interpreter
  lists. That database is not part of the program, so the lexer takes it as the parameter
  \<open>nd\<close>, consulted for non-ASCII code points only.
\<close>

definition ord_of :: "char \<Rightarrow> nat" where
  "ord_of c = of_char c"

definition text_of :: "string \<Rightarrow> nat list" where
  "text_of s = map ord_of s"

definition digit :: "(nat \<Rightarrow> bool) \<Rightarrow> nat \<Rightarrow> bool" where
  "digit nd c = ((48 \<le> c \<and> c \<le> 57) \<or> (127 < c \<and> nd c))"

definition nonzero_digit :: "nat \<Rightarrow> bool" where
  "nonzero_digit c = (49 \<le> c \<and> c \<le> 57)"

definition lower :: "nat \<Rightarrow> bool" where
  "lower c = (97 \<le> c \<and> c \<le> 122)"

definition ident_char :: "nat \<Rightarrow> bool" where
  "ident_char c = (lower c \<or> (48 \<le> c \<and> c \<le> 57) \<or> c = ord_of CHR ''-'')"

text \<open>The lexeme matched at the head of the remaining text, and what follows it.\<close>

fun match_token :: "(nat \<Rightarrow> bool) \<Rightarrow> nat list \<Rightarrow> (nat list \<times> nat list) option" where
  "match_token nd [] = None"
| "match_token nd (c # cs) =
     (if c = ord_of CHR ''('' then Some (text_of ''('', cs)
      else if c = ord_of CHR '')'' then Some (text_of '')'', cs)
      else if c = ord_of CHR ''#'' \<and> cs \<noteq> [] \<and> hd cs = ord_of CHR ''t'' then
        Some (text_of ''#t'', tl cs)
      else if c = ord_of CHR ''#'' \<and> cs \<noteq> [] \<and> hd cs = ord_of CHR ''f'' then
        Some (text_of ''#f'', tl cs)
      else if c = ord_of CHR ''0'' then Some (text_of ''0'', cs)
      else if c = ord_of CHR ''-'' \<and> cs \<noteq> [] \<and> nonzero_digit (hd cs) then
        Some (c # hd cs # takeWhile (digit nd) (tl cs), dropWhile (digit nd) (tl cs))
      else if nonzero_digit c then Some (c # takeWhile (digit nd) cs, dropWhile (digit nd) cs)
      else if lower c then Some (c # takeWhile ident_char cs, dropWhile ident_char cs)
      else if c \<in> set (text_of ''+*/<>='') then Some ([c], cs)
      else if c = ord_of CHR ''-'' then Some (text_of ''-'', cs)
      else None)"

function tokenize :: "(nat \<Rightarrow> bool) \<Rightarrow> nat list \<Rightarrow> nat list list" where
  "tokenize nd [] = []"
| "tokenize nd (c # cs) =
     (case match_token nd (c # cs) of
        None \<Rightarrow> tokenize nd cs
      | Some (t, rest) \<Rightarrow> t # tokenize nd rest)"
  by pat_completeness auto
termination
  by (relation "measure (\<lambda>(nd, s). length s)")
     (auto split: if_splits simp: less_Suc_eq_le length_dropWhile_le le_SucI
           intro: le_trans [OF length_dropWhile_le])

text \<open>
  The decimal digits beyond ASCII in Unicode 14.0.0, the database of CPython 3.11
  (\<open>unicodedata.category(c) == 'Nd'\<close>), as ranges of code points. It instantiates \<open>nd\<close> in
  the examples; the general statements below hold for every table.
\<close>

definition nd_ranges :: "(nat \<times> nat) list" where
  "nd_ranges =
    [(0x660, 0x669), (0x6F0, 0x6F9), (0x7C0, 0x7C9), (0x966, 0x96F), (0x9E6, 0x9EF),
     (0xA66, 0xA6F), (0xAE6, 0xAEF), (0xB66, 0xB6F), (0xBE6, 0xBEF), (0xC66, 0xC6F),
     (0xCE6, 0xCEF), (0xD66, 0xD6F), (0xDE6, 0xDEF), (0xE50, 0xE59), (0xED0, 0xED9),
     (0xF20, 0xF29), (0x1040, 0x1049), (0x1090, 0x1099), (0x17E0, 0x17E9), (0x1810, 0x1819),
     (0x1946, 0x194F), (0x19D0, 0x19D9), (0x1A80, 0x1A89), (0x1A90, 0x1A99), (0x1B50, 0x1B59),
     (0x1BB0, 0x1BB9), (0x1C40, 0x1C49), (0x1C50, 0x1C59), (0xA620, 0xA629), (0xA8D0, 0xA8D9),
     (0xA900, 0xA909), (0xA9D0, 0xA9D9), (0xA9F0, 0xA9F9), (0xAA50, 0xAA59), (0xABF0, 0xABF9),
     (0xFF10, 0xFF19), (0x104A0, 0x104A9), (0x10D30, 0x10D39), (0x11066, 0x1106F),
     (0x110F0, 0x110F9), (0x11136, 0x1113F), (0x111D0, 0x111D9), (0x112F0, 0x112F9),
     (0x11450, 0x11459), (0x114D0, 0x114D9), (0x11650, 0x11659), (0x116C0, 0x116C9),
     (0x11730, 0x11739), (0x118E0, 0x118E9), (0x11950, 0x11959), (0x11C50, 0x11C59),
     (0x11D50, 0x11D59), (0x11DA0, 0x11DA9), (0x16A60, 0x16A69), (0x16AC0, 0x16AC9),
     (0x16B50, 0x16B59), (0x1D7CE, 0x1D7FF), (0x1E140, 0x1E149), (0x1E2F0, 0x1E2F9),
     (0x1E950, 0x1E959), (0x1FBF0, 0x1FBF9)]"

definition unicode_nd :: "nat \<Rightarrow> bool" where
  "unicode_nd c = list_ex (\<lambda>(lo, hi). lo \<le> c \<and> c \<le> hi) nd_ranges"

section \<open>AST builder\<close>

text \<open>
  \<open>error_syntax(tok)\<close> prints one line and exits; the builders return that line (\<open>Inl\<close>)
  or the node built (\<open>Inr\<close>). The test \<open>if unexpected_token:\<close> is Python truthiness.
\<close>

definition truthy :: "sexp \<Rightarrow> bool" where
  "truthy x = (case x of SBool b \<Rightarrow> b | SInt i \<Rightarrow> i \<noteq> 0 | SSym n \<Rightarrow> n \<noteq> [] | SList xs \<Rightarrow> xs \<noteq> [])"

definition error_syntax :: "sexp option \<Rightarrow> string + 'a" where
  "error_syntax t =
     (case t of
        None \<Rightarrow> Inl ''syntax error''
      | Some x \<Rightarrow>
          if truthy x then Inl (''syntax error, unexpected '' @ quoted (pystr x))
          else Inl ''syntax error'')"

definition bindp :: "string + 'a \<Rightarrow> ('a \<Rightarrow> string + 'b) \<Rightarrow> string + 'b" where
  "bindp m f = (case m of Inl msg \<Rightarrow> Inl msg | Inr x \<Rightarrow> f x)"

definition op_names :: "string list" where
  "op_names = [''not''] @ [''-'', ''/'', ''mod'', ''>'', ''<''] @ [''+'', ''*'', ''='', ''and'', ''or'']"

fun parse_exp :: "sexp \<Rightarrow> string + node"
  and parse_exps :: "sexp list \<Rightarrow> string + node list"
  and parse_stmt :: "sexp \<Rightarrow> string + node"
  and parse_stmts :: "sexp list \<Rightarrow> string + node list"
where
  "parse_exp (SInt i) = Inr (Val (VInt i))"
| "parse_exp (SBool b) = Inr (Val (VBool b))"
| "parse_exp (SSym x) =
     (if x \<in> set [''+'', ''-'', ''*'', ''/'', ''mod'', ''>'', ''<'', ''='', ''and'', ''or'', ''not'']
      then error_syntax (Some (SSym x)) else Inr (Var x))"
| "parse_exp (SList []) = error_syntax None"
| "parse_exp (SList (head # rest)) =
     (if head = SSym ''if'' then
        (case rest of
           [t, a, b] \<Rightarrow>
             bindp (parse_exp t) (\<lambda>t'. bindp (parse_exp a) (\<lambda>a'. bindp (parse_exp b) (\<lambda>b'.
               Inr (If t' a' b'))))
         | _ \<Rightarrow> error_syntax (Some head))
      else if head = SSym ''fun'' then
        (case rest of
           params # b # bs \<Rightarrow>
             (case params of
                SList ps \<Rightarrow> bindp (parse_stmts (b # bs)) (\<lambda>body. Inr (Fun ps body))
              | _ \<Rightarrow> error_syntax (Some params))
         | _ \<Rightarrow> error_syntax (Some head))
      else if head \<in> SSym ` set op_names then
        bindp (parse_exps rest) (\<lambda>args. Inr (Op (pystr head) args))
      else
        bindp (parse_exp head) (\<lambda>f. bindp (parse_exps rest) (\<lambda>args. Inr (Call f args))))"
| "parse_exps [] = Inr []"
| "parse_exps (x # xs) = bindp (parse_exp x) (\<lambda>n. bindp (parse_exps xs) (\<lambda>ns. Inr (n # ns)))"
| "parse_stmt (SList (head # rest)) =
     (if head = SSym ''define'' then
        (case rest of
           [name, ex] \<Rightarrow> bindp (parse_exp ex) (\<lambda>v. Inr (Def name v))
         | _ \<Rightarrow> error_syntax (Some head))
      else if head = SSym ''print-num'' then
        (case rest of
           [ex] \<Rightarrow> bindp (parse_exp ex) (\<lambda>v. Inr (Print True v))
         | _ \<Rightarrow> error_syntax (Some head))
      else if head = SSym ''print-bool'' then
        (case rest of
           [ex] \<Rightarrow> bindp (parse_exp ex) (\<lambda>v. Inr (Print False v))
         | _ \<Rightarrow> error_syntax (Some head))
      else parse_exp (SList (head # rest)))"
| "parse_stmt s = parse_exp s"
| "parse_stmts [] = Inr []"
| "parse_stmts (x # xs) = bindp (parse_stmt x) (\<lambda>n. bindp (parse_stmts xs) (\<lambda>ns. Inr (n # ns)))"


section \<open>Notions used in the properties\<close>

text \<open>
  \<open>heap_ext s s'\<close>: the store of \<open>s'\<close> still holds every \<open>Env\<close> object of \<open>s\<close>, each with
  the parent link it had. \<open>keeps_links ev\<close>: an evaluator only ever extends the store in
  this way.
\<close>

definition heap_ext :: "state \<Rightarrow> state \<Rightarrow> bool" where
  "heap_ext s s' \<longleftrightarrow>
     length (heap s) \<le> length (heap s') \<and> (\<forall>a<length (heap s). par (heap s' ! a) = par (heap s ! a))"

definition keeps_links :: "evaluator \<Rightarrow> bool" where
  "keeps_links ev \<longleftrightarrow> (\<forall>nd e s. heap_ext s (snd (ev nd e s)))"

text \<open>
  A code point that occurs in no lexeme at all. (Blanks, tabs and newlines are such
  code points: the pattern of \<open>tokenize\<close> does not mention white space.)
\<close>

definition lexeme_char :: "(nat \<Rightarrow> bool) \<Rightarrow> nat \<Rightarrow> bool" where
  "lexeme_char nd c = (c \<in> set (text_of ''()#+*/<>=-'') \<or> digit nd c \<or> lower c)"

text \<open>
  Stores for the examples. In \<open>shadow_state\<close> the global frame binds \<open>x\<close> and frame 1,
  a call frame below it, is still empty. In \<open>scope_state\<close> the global frame binds \<open>x\<close> to 1
  and \<open>f\<close> to the closure of \<open>(fun (a b) (- a x))\<close> over the global frame; frame 1, from
  which \<open>f\<close> is called, binds \<open>x\<close> to 2 and \<open>y\<close> to 5. \<open>scope_alloc\<close> is \<open>scope_state\<close> with
  the new, still empty call frame of \<open>f\<close>, and \<open>scope_bound\<close> the same once both
  parameters are bound.
\<close>

definition shadow_state :: state where
  "shadow_state = \<lparr>heap = [\<lparr>vars = [(KStr ''x'', VInt 1)], par = None\<rparr>, \<lparr>vars = [], par = Some 0\<rparr>], out = []\<rparr>"

definition scope_state :: state where
  "scope_state =
     \<lparr>heap = [\<lparr>vars = [(KStr ''x'', VInt 1),
                        (KStr ''f'', Closure [SSym ''a'', SSym ''b'']
                                       [Op ''-'' [Var ''a'', Var ''x'']] 0)],
               par = None\<rparr>,
              \<lparr>vars = [(KStr ''x'', VInt 2), (KStr ''y'', VInt 5)], par = Some 0\<rparr>],
      out = []\<rparr>"

definition scope_alloc :: state where
  "scope_alloc = scope_state\<lparr>heap := heap scope_state @ [\<lparr>vars = [], par = Some 0\<rparr>]\<rparr>"

definition scope_bound :: state where
  "scope_bound =
     scope_state\<lparr>heap := heap scope_state
        @ [\<lparr>vars = [(KStr ''a'', VInt 2), (KStr ''b'', VInt 5)], par = Some 0\<rparr>]\<rparr>"

section \<open>Properties of the evaluator\<close>

subsection \<open>Auxiliary facts\<close>

lemma bind_Ret [simp]: "bind (Ret v, s) f = f v s"
  by (simp add: bind_def)

lemma sum_nums_ints: "sum_nums (map VInt xs) acc s = (Ret (acc + sum_list xs), s)"
  by (induction xs arbitrary: acc) (simp_all add: add.assoc)

lemma prod_nums_ints: "prod_nums (map VInt xs) r s = (Ret (r * prod_list xs), s)"
  by (induction xs arbitrary: r) (simp_all add: mult.assoc)

lemma arity_check_variadic:
  "2 \<le> cnt \<Longrightarrow> op \<in> {''+'', ''*'', ''='', ''and'', ''or''} \<Longrightarrow> arity_check op cnt s = (Ret (), s)"
  by (auto simp: arity_check_def)

lemma eval_all_prefix:
  "eval_list ev pre e s = (Ret (replicate (length pre) (VBool True)), s1) \<Longrightarrow>
   eval_all ev (pre @ rest) e s = eval_all ev rest e s1"
proof (induction pre arbitrary: s)
  case Nil
  then show ?case by simp
next
  case (Cons a pre)
  then show ?case
    by (auto simp: bind_def split: prod.splits res.splits)
qed

lemma eval_any_prefix:
  "eval_list ev pre e s = (Ret (replicate (length pre) (VBool False)), s1) \<Longrightarrow>
   eval_any ev (pre @ rest) e s = eval_any ev rest e s1"
proof (induction pre arbitrary: s)
  case Nil
  then show ?case by simp
next
  case (Cons a pre)
  then show ?case
    by (auto simp: bind_def split: prod.splits res.splits)
qed

lemma find_own_frame:
  "map_of (vars (heap s ! e)) (KStr x) = Some v \<Longrightarrow> find (Suc m) e x s = (Ret v, s)"
  by simp

lemma env_set_lookup:
  "e < length (heap s) \<Longrightarrow> map_of (vars (heap (env_set e k v s) ! e)) k = Some v"
  by (simp add: env_set_def update_Some_unfold)

subsection \<open>Exact integer arithmetic\<close>

text \<open>
  Claim C10. Integers are Python's unbounded \<open>int\<close>: whenever the operands of \<open>+\<close>, \<open>*\<close>
  (two or more) or \<open>-\<close> (exactly two) evaluate to integers, the operator returns their
  exact mathematical sum, product or difference. There is no wrap-around at 64 bits and no
  overflow error, whatever the magnitude of the result.
\<close>

theorem C10_exact_arithmetic:
  "(eval_list (eval n) args e s = (Ret (map VInt xs), s1) \<and> 2 \<le> length args \<longrightarrow>
      eval (Suc n) (Op ''+'' args) e s = (Ret (VInt (sum_list xs)), s1) \<and>
      eval (Suc n) (Op ''*'' args) e s = (Ret (VInt (prod_list xs)), s1)) \<and>
   (eval_list (eval n) args e s = (Ret [VInt a, VInt b], s1) \<and> length args = 2 \<longrightarrow>
      eval (Suc n) (Op ''-'' args) e s = (Ret (VInt (a - b)), s1))"
  by (simp add: arity_check_variadic apply_op_def sum_nums_ints prod_nums_ints arity_check_def item_def)

theorem C10_witness:
  "eval (Suc (Suc 0)) (Op ''+'' [Val (VInt 9223372036854775807), Val (VInt 1)]) 0 init_state
     = (Ret (VInt 9223372036854775808), init_state) \<and>
   eval (Suc (Suc 0)) (Op ''*'' [Val (VInt 9223372036854775807), Val (VInt 4)]) 0 init_state
     = (Ret (VInt 36893488147419103228), init_state) \<and>
   eval (Suc (Suc 0)) (Op ''-'' [Val (VInt (- 9223372036854775808)), Val (VInt 1)]) 0 init_state
     = (Ret (VInt (- 9223372036854775809)), init_state)"
  using C10_exact_arithmetic [of "Suc 0" "[Val (VInt 9223372036854775807), Val (VInt 1)]" 0 init_state
          "[9223372036854775807, 1]" init_state 0 0]
        C10_exact_arithmetic [of "Suc 0" "[Val (VInt 9223372036854775807), Val (VInt 4)]" 0 init_state
          "[9223372036854775807, 4]" init_state 0 0]
        C10_exact_arithmetic [of "Suc 0" "[Val (VInt (- 9223372036854775808)), Val (VInt 1)]" 0 init_state
          "[]" init_state "- 9223372036854775808" 1]
  by simp

subsection \<open>Short-circuit evaluation of and/or\<close>

text \<open>
  Claim C9. The operands of \<open>and\<close> are evaluated left to right in the current environment,
  the store and the output being threaded through. When the operands before \<open>a\<close> all gave
  true and \<open>a\<close> gives false, the result is false and the final state is the one right after
  \<open>a\<close>: none of the later operands \<open>post\<close> is evaluated, so neither their output nor their
  errors can occur. Symmetrically \<open>or\<close> stops at the first true operand with result true.
\<close>

theorem C9_short_circuit:
  "(eval_list (eval n) pre e s = (Ret (replicate (length pre) (VBool True)), s1) \<and>
    eval n a e s1 = (Ret (VBool False), s2) \<and> 2 \<le> length (pre @ a # post) \<longrightarrow>
      eval (Suc n) (Op ''and'' (pre @ a # post)) e s = (Ret (VBool False), s2)) \<and>
   (eval_list (eval n) pre e s = (Ret (replicate (length pre) (VBool False)), s1) \<and>
    eval n a e s1 = (Ret (VBool True), s2) \<and> 2 \<le> length (pre @ a # post) \<longrightarrow>
      eval (Suc n) (Op ''or'' (pre @ a # post)) e s = (Ret (VBool True), s2))"
  by (auto simp: arity_check_variadic eval_all_prefix eval_any_prefix)


theorem C9_witness:
  "eval (Suc (Suc 0))
     (Op ''and'' [Val (VBool True), Val (VBool False), Op ''/'' [Val (VInt 1), Val (VInt 0)]]) 0 init_state
     = (Ret (VBool False), init_state) \<and>
   eval (Suc (Suc 0))
     (Op ''or'' [Val (VBool False), Val (VBool True), Op ''/'' [Val (VInt 1), Val (VInt 0)]]) 0 init_state
     = (Ret (VBool True), init_state)"
  using C9_short_circuit [of "Suc 0" "[Val (VBool True)]" 0 init_state init_state "Val (VBool False)" init_state
          "[Op ''/'' [Val (VInt 1), Val (VInt 0)]]"]
        C9_short_circuit [of "Suc 0" "[Val (VBool False)]" 0 init_state init_state "Val (VBool True)" init_state
          "[Op ''/'' [Val (VInt 1), Val (VInt 0)]]"]
  by simp

subsection \<open>Division and remainder\<close>

text \<open>
  Claim C2. \<open>/\<close> is computed as \<open>int(a / b)\<close>, through a double. For the operands
  \<open>9007199254740993 = 2^53 + 1\<close> and \<open>1\<close> the program prints \<open>9007199254740992\<close>, whereas
  truncation toward zero of the exact quotient is \<open>9007199254740993\<close>.
\<close>

theorem C2_division_rounds_large_operands:
  "run (Suc (Suc (Suc 0))) [Print True (Op ''/'' [Val (VInt 9007199254740993), Val (VInt 1)])]
     = (Ret VNone, init_state\<lparr>out := [''9007199254740992'']\<rparr>)"
  by code_simp

text \<open>Division by zero is reported as the claim says, once both operands are integers.\<close>

lemma division_by_zero:
  "eval_list (eval n) args e s = (Ret [VInt a, VInt 0], s1) \<Longrightarrow> length args = 2 \<Longrightarrow>
   eval (Suc n) (Op ''/'' args) e s = (Exit, s1\<lparr>out := out s1 @ [''Error: Division by zero'']\<rparr>)"
  by (simp add: arity_check_def apply_op_def item_def error_runtime_def)

text \<open>
  Claim C6. \<open>mod\<close> is computed as \<open>int(math.fmod(a, b))\<close>, on doubles. For the operands
  \<open>9007199254740993 = 2^53 + 1\<close> and \<open>2\<close> the program prints \<open>0\<close>, whereas the remainder of
  truncated division is \<open>1\<close>.
\<close>

theorem C6_mod_rounds_large_operands:
  "run (Suc (Suc (Suc 0))) [Print True (Op ''mod'' [Val (VInt 9007199254740993), Val (VInt 2)])]
     = (Ret VNone, init_state\<lparr>out := [''0'']\<rparr>)"
  by code_simp

subsection \<open>Type checks of the numeric operators\<close>

text \<open>
  Claim C4. \<open>=\<close> checks its operands inside \<open>all(...)\<close>, which stops at the first unequal
  operand: in \<open>(= 1 2 #t)\<close> the boolean operand is never checked and the program prints
  \<open>#f\<close> instead of the type error. Likewise \<open>/\<close> tests the divisor for zero before it
  checks the dividend: \<open>(/ #t 0)\<close> reports division by zero, not the type error.
\<close>

theorem C4_equality_skips_type_check:
  "run (Suc (Suc (Suc 0))) [Print False (Op ''='' [Val (VInt 1), Val (VInt 2), Val (VBool True)])]
     = (Ret VNone, init_state\<lparr>out := [''#f'']\<rparr>) \<and>
   run (Suc (Suc (Suc 0))) [Print True (Op ''/'' [Val (VBool True), Val (VInt 0)])]
     = (Exit, init_state\<lparr>out := [''Error: Division by zero'']\<rparr>)"
  by code_simp

subsection \<open>Redefinition and shadowing\<close>

text \<open>
  Claim C8. \<open>Define(x, ex)\<close> in a frame \<open>e\<close> that already binds \<open>x\<close> exits with
  \<open>Error: Redefining x is not allowed.\<close>; the state is otherwise untouched, so \<open>ex\<close> was not
  evaluated. When frame \<open>e\<close> itself does not bind \<open>x\<close> (whether or not an ancestor does) and
  \<open>ex\<close> evaluates to \<open>v\<close>, the define returns and binds \<open>x\<close> to \<open>v\<close> in frame \<open>e\<close>, and a
  lookup of \<open>x\<close> through \<open>e\<close> then yields \<open>v\<close>, shadowing any outer binding.
\<close>

theorem C8_redefinition:
  "(env_has e (KStr x) s \<longrightarrow>
      eval (Suc n) (Def (SSym x) ex) e s
        = (Exit, s\<lparr>out := out s @ [''Error: Redefining '' @ x @ '' is not allowed.'']\<rparr>)) \<and>
   (\<not> env_has e (KStr x) s \<and> eval n ex e s = (Ret v, s1) \<and> e < length (heap s1) \<longrightarrow>
      eval (Suc n) (Def (SSym x) ex) e s = (Ret VNone, env_set e (KStr x) v s1) \<and>
      eval (Suc (Suc m)) (Var x) e (env_set e (KStr x) v s1) = (Ret v, env_set e (KStr x) v s1))"
  by (simp add: error_runtime_def env_set_lookup)

theorem C8_witness:
  "eval (Suc (Suc 0)) (Def (SSym ''x'') (Val (VInt 2))) 0 shadow_state
     = (Exit, shadow_state\<lparr>out := [''Error: Redefining x is not allowed.'']\<rparr>) \<and>
   eval (Suc (Suc (Suc 0))) (Var ''x'') (Suc 0) shadow_state = (Ret (VInt 1), shadow_state) \<and>
   eval (Suc (Suc 0)) (Def (SSym ''x'') (Val (VInt 2))) (Suc 0) shadow_state
     = (Ret VNone, env_set (Suc 0) (KStr ''x'') (VInt 2) shadow_state) \<and>
   eval (Suc (Suc 0)) (Var ''x'') (Suc 0) (env_set (Suc 0) (KStr ''x'') (VInt 2) shadow_state)
     = (Ret (VInt 2), env_set (Suc 0) (KStr ''x'') (VInt 2) shadow_state)"
  using C8_redefinition [of 0 "''x''" shadow_state "Suc 0" "Val (VInt 2)" "VInt 2" shadow_state 0]
        C8_redefinition [of "Suc 0" "''x''" shadow_state "Suc 0" "Val (VInt 2)" "VInt 2" shadow_state 0]
  by (simp add: shadow_state_def env_has_def env_set_def error_runtime_def)

subsection \<open>Arity of calls\<close>

text \<open>
  Claim C7. When the callee evaluates to a closure with \<open>N\<close> parameters and \<open>M \<noteq> N\<close>
  arguments are supplied, the call exits with exactly \<open>Need N arguments, but got M.\<close>; the
  state is the one right after the callee was evaluated, so no argument has been evaluated.
  A call that returns a value therefore has \<open>M = N\<close>; and with \<open>M = N\<close> the arity check
  passes: the arguments are bound and the body is run, and the call returns what the body
  returns, with the body's output.
\<close>

theorem C7_arity:
  "(eval n f e s = (Ret (Closure ps body ce), s1) \<and> length args \<noteq> length ps \<longrightarrow>
      eval (Suc n) (Call f args) e s
        = (Exit, s1\<lparr>out := out s1 @ [''Need '' @ string_of_nat (length ps) @ '' arguments, but got ''
                                        @ string_of_nat (length args) @ ''.'']\<rparr>)) \<and>
   (eval n f e s = (Ret (Closure ps body ce), s1) \<and> eval (Suc n) (Call f args) e s = (Ret v, s') \<longrightarrow>
      length args = length ps) \<and>
   (eval n f e s = (Ret (Closure ps body ce), s1) \<and> length args = length ps \<and>
    bind_args (eval n) ps args e (length (heap s1)) (snd (env_new (Some ce) s1)) = (Ret u, s2) \<and>
    eval_body (eval n) body (length (heap s1)) VNone s2 = (Ret v, s') \<longrightarrow>
      eval (Suc n) (Call f args) e s = (Ret v, s'))"
  by (auto simp: error_runtime_def env_new_def split: if_splits)


theorem C7_witness:
  "eval (Suc (Suc (Suc 0)))
     (Call (Fun [SSym ''x''] [Var ''x'']) [Op ''/'' [Val (VInt 1), Val (VInt 0)], Val (VInt 2)])
     0 init_state
     = (Exit, init_state\<lparr>out := [''Need 1 arguments, but got 2.'']\<rparr>) \<and>
   eval (Suc (Suc (Suc 0))) (Call (Fun [SSym ''x''] [Var ''x'']) [Val (VInt 5)]) 0 init_state
     = (Ret (VInt 5),
        init_state\<lparr>heap := heap init_state @ [\<lparr>vars = [(KStr ''x'', VInt 5)], par = Some 0\<rparr>]\<rparr>)"
  using C7_arity [of "Suc (Suc 0)" "Fun [SSym ''x''] [Var ''x'']" 0 init_state "[SSym ''x'']"
          "[Var ''x'']" 0 init_state "[Op ''/'' [Val (VInt 1), Val (VInt 0)], Val (VInt 2)]"
          "VInt 5" init_state "()" init_state]
        C7_arity [of "Suc (Suc 0)" "Fun [SSym ''x''] [Var ''x'']" 0 init_state "[SSym ''x'']"
          "[Var ''x'']" 0 init_state "[Val (VInt 5)]" "VInt 5"
          "init_state\<lparr>heap := heap init_state @ [\<lparr>vars = [(KStr ''x'', VInt 5)], par = Some 0\<rparr>]\<rparr>"
          "()"
          "init_state\<lparr>heap := heap init_state @ [\<lparr>vars = [(KStr ''x'', VInt 5)], par = Some 0\<rparr>]\<rparr>"]
  by (simp add: init_state_def env_new_def env_set_def string_of_nat_def)

subsection \<open>Closures and lexical scope\<close>

text \<open>Nothing the evaluator does removes an \<open>Env\<close> object or changes its parent link.\<close>

lemma heap_ext_refl [simp]: "heap_ext s s"
  by (simp add: heap_ext_def)

lemma heap_ext_trans: "heap_ext s s1 \<Longrightarrow> heap_ext s1 s2 \<Longrightarrow> heap_ext s s2"
  by (auto simp: heap_ext_def)

lemma heap_ext_env_set: "heap_ext s (env_set a k v s)"
proof -
  have "par ((heap s)[a := (heap s ! a)\<lparr>vars := AList.update k v (vars (heap s ! a))\<rparr>] ! b)
          = par (heap s ! b)" if "b < length (heap s)" for b
    using that by (cases "b = a") simp_all
  then show ?thesis
    by (simp add: heap_ext_def env_set_def)
qed

lemma heap_ext_env_new: "heap_ext s (snd (env_new p s))"
  by (auto simp: heap_ext_def env_new_def nth_append)

lemma heap_bind:
  assumes "heap (snd m) = heap s"
    and "\<And>v s1. heap s1 = heap s \<Longrightarrow> heap (snd (f v s1)) = heap s"
  shows "heap (snd (bind m f)) = heap s"
  using assms by (cases m) (auto simp: bind_def split: res.splits)

lemma error_runtime_heap [simp]: "heap (snd (error_runtime m s)) = heap s"
  by (simp add: error_runtime_def)

lemma check_num_heap [simp]: "heap (snd (check_num v s)) = heap s"
  by (cases v) simp_all

lemma check_bool_heap [simp]: "heap (snd (check_bool v s)) = heap s"
  by (cases v) simp_all

lemma item_heap [simp]: "heap (snd (item vs i s)) = heap s"
  by (simp add: item_def)

lemma sum_nums_heap [simp]: "heap (snd (sum_nums vs acc s)) = heap s"
  by (induction vs arbitrary: acc s) (auto intro!: heap_bind)

lemma prod_nums_heap [simp]: "heap (snd (prod_nums vs acc s)) = heap s"
  by (induction vs arbitrary: acc s) (auto intro!: heap_bind)

lemma all_eq_heap [simp]: "heap (snd (all_eq vs v0 s)) = heap s"
  by (induction vs arbitrary: s) (auto intro!: heap_bind)

lemma heap_snd_bind:
  "(\<And>v s1. heap (snd (f v s1)) = heap s1) \<Longrightarrow> heap (snd (bind m f)) = heap (snd m)"
  by (cases m) (auto simp: bind_def split: res.splits)

lemma apply_op_heap [simp]: "heap (snd (apply_op op vs s)) = heap s"
  unfolding apply_op_def
  by (simp add: heap_snd_bind split: option.splits sum.splits)

lemma arity_check_heap [simp]: "heap (snd (arity_check op cnt s)) = heap s"
  by (simp add: arity_check_def)

lemma find_heap [simp]: "heap (snd (find fuel a x s)) = heap s"
  by (induction fuel arbitrary: a) (auto split: option.splits)

lemma ext_pure: "heap s' = heap s \<Longrightarrow> heap_ext s0 s \<Longrightarrow> heap_ext s0 s'"
  by (simp add: heap_ext_def)

lemma ext_bind:
  assumes "heap_ext s0 (snd m)"
    and "\<And>v s1. heap_ext s0 s1 \<Longrightarrow> heap_ext s0 (snd (f v s1))"
  shows "heap_ext s0 (snd (bind m f))"
  using assms by (cases m) (auto simp: bind_def split: res.splits)

lemma ext_ev: "keeps_links ev \<Longrightarrow> heap_ext s0 s \<Longrightarrow> heap_ext s0 (snd (ev nd e s))"
  unfolding keeps_links_def by (blast intro: heap_ext_trans)

lemma ext_env_set: "heap_ext s0 s \<Longrightarrow> heap_ext s0 (env_set a k v s)"
  by (blast intro: heap_ext_trans heap_ext_env_set)

lemma ext_env_new: "heap_ext s0 s \<Longrightarrow> heap_ext s0 (snd (env_new p s))"
  by (blast intro: heap_ext_trans heap_ext_env_new)

lemma ext_check_bool: "heap_ext s0 s \<Longrightarrow> heap_ext s0 (snd (check_bool v s))"
  by (rule ext_pure [OF check_bool_heap])

lemma ext_check_num: "heap_ext s0 s \<Longrightarrow> heap_ext s0 (snd (check_num v s))"
  by (rule ext_pure [OF check_num_heap])

lemma eval_list_ext:
  assumes "keeps_links ev"
  shows "heap_ext s0 s \<Longrightarrow> heap_ext s0 (snd (eval_list ev as e s))"
proof (induction as arbitrary: s)
  case Nil
  then show ?case by simp
next
  case (Cons a as)
  show ?case
    unfolding eval_list.simps
    by (rule ext_bind, rule ext_ev [OF assms Cons.prems], rule ext_bind, erule Cons.IH, simp)
qed

lemma eval_all_ext:
  assumes "keeps_links ev"
  shows "heap_ext s0 s \<Longrightarrow> heap_ext s0 (snd (eval_all ev as e s))"
proof (induction as arbitrary: s)
  case Nil
  then show ?case by simp
next
  case (Cons a as)
  show ?case
    unfolding eval_all.simps
    by (rule ext_bind, rule ext_ev [OF assms Cons.prems], rule ext_bind, erule ext_check_bool)
       (simp add: Cons.IH)
qed

lemma eval_any_ext:
  assumes "keeps_links ev"
  shows "heap_ext s0 s \<Longrightarrow> heap_ext s0 (snd (eval_any ev as e s))"
proof (induction as arbitrary: s)
  case Nil
  then show ?case by simp
next
  case (Cons a as)
  show ?case
    unfolding eval_any.simps
    by (rule ext_bind, rule ext_ev [OF assms Cons.prems], rule ext_bind, erule ext_check_bool)
       (simp add: Cons.IH)
qed

lemma eval_body_ext:
  assumes "keeps_links ev"
  shows "heap_ext s0 s \<Longrightarrow> heap_ext s0 (snd (eval_body ev sts e r s))"
proof (induction sts arbitrary: s r)
  case Nil
  then show ?case by simp
next
  case (Cons a as)
  show ?case
    unfolding eval_body.simps
    by (rule ext_bind, rule ext_ev [OF assms Cons.prems], erule Cons.IH)
qed

lemma bind_args_ext:
  assumes "keeps_links ev"
  shows "heap_ext s0 s \<Longrightarrow> heap_ext s0 (snd (bind_args ev ps as e ne s))"
proof (induction ps arbitrary: as s)
  case Nil
  then show ?case by simp
next
  case (Cons p ps)
  show ?case
  proof (cases as)
    case Nil
    with Cons.prems show ?thesis by simp
  next
    case (Cons a as')
    show ?thesis
      unfolding Cons bind_args.simps
      by (rule ext_bind, rule ext_ev [OF assms Cons.prems])
         (simp add: Cons.IH ext_env_set split: option.splits)
  qed
qed

lemma eval_keeps_links: "keeps_links (eval n)"
proof (induction n)
  case 0
  show ?case by (simp add: keeps_links_def)
next
  case (Suc n)
  have "heap_ext s0 s \<Longrightarrow> heap_ext s0 (snd (eval (Suc n) nd e s))" for nd e s s0
  proof (cases nd)
    case (Val v)
    assume "heap_ext s0 s"
    with Val show ?thesis by simp
  next
    case (Var x)
    assume "heap_ext s0 s"
    with Var show ?thesis by (simp add: ext_pure [OF find_heap])
  next
    case (Def nm ex)
    assume h: "heap_ext s0 s"
    show ?thesis
    proof (cases "hashkey nm")
      case None
      with Def h show ?thesis by simp
    next
      case (Some k)
      show ?thesis
      proof (cases "env_has e k s")
        case True
        with Def Some h show ?thesis by (simp add: ext_pure [OF error_runtime_heap])
      next
        case False
        have "heap_ext s0 (snd (bind (eval n ex e s) (\<lambda>r s1. (Ret VNone, env_set e k r s1))))"
          by (rule ext_bind, rule ext_ev [OF Suc h]) (simp add: ext_env_set)
        with Def Some False show ?thesis by simp
      qed
    qed
  next
    case (If t a b)
    assume h: "heap_ext s0 s"
    show ?thesis
      unfolding If eval.simps
      by (rule ext_bind, rule ext_ev [OF Suc h], rule ext_bind, erule ext_check_bool)
         (simp add: ext_ev [OF Suc])
  next
    case (Fun ps body)
    assume "heap_ext s0 s"
    with Fun show ?thesis by simp
  next
    case (Call f args)
    assume h: "heap_ext s0 s"
    have step: "heap_ext s0 (snd (case fn of
          Closure ps body cenv \<Rightarrow>
            if length args \<noteq> length ps then
              error_runtime (''Need '' @ string_of_nat (length ps) @ '' arguments, but got ''
                               @ string_of_nat (length args) @ ''.'') s1
            else
              (case env_new (Some cenv) s1 of
                 (new_e, s2) \<Rightarrow>
                   bind (bind_args (eval n) ps args e new_e s2) (\<lambda>u s3.
                     eval_body (eval n) body new_e VNone s3))
        | _ \<Rightarrow>
            error_runtime (''Type Error: Expect 'function' but got '' @ quoted (typeof fn) @ ''.'') s1))"
      if h1: "heap_ext s0 s1" for fn s1
    proof (cases fn)
      case (Closure ps body cenv)
      show ?thesis
      proof (cases "length args \<noteq> length ps")
        case True
        with Closure h1 show ?thesis by (simp add: ext_pure [OF error_runtime_heap])
      next
        case False
        obtain new_e s2 where n2: "env_new (Some cenv) s1 = (new_e, s2)"
          by (cases "env_new (Some cenv) s1")
        have "heap_ext s0 s2"
          using ext_env_new [OF h1, of "Some cenv"] n2 by simp
        then have "heap_ext s0 (snd (bind (bind_args (eval n) ps args e new_e s2)
                      (\<lambda>u s3. eval_body (eval n) body new_e VNone s3)))"
          by (intro ext_bind bind_args_ext [OF Suc] eval_body_ext [OF Suc])
        with Closure False n2 show ?thesis by simp
      qed
    qed (simp_all add: ext_pure [OF error_runtime_heap] h1)
    show ?thesis
      unfolding Call eval.simps
      by (rule ext_bind, rule ext_ev [OF Suc h], erule step)
  next
    case (Op op args)
    assume h: "heap_ext s0 s"
    show ?thesis
      unfolding Op eval.simps
      apply (rule ext_bind)
       apply (rule ext_pure [OF arity_check_heap h])
      apply (simp add: eval_all_ext [OF Suc] eval_any_ext [OF Suc])
      apply (intro impI ext_bind eval_list_ext [OF Suc])
       apply assumption
      apply (erule ext_pure [OF apply_op_heap])
      done
  next
    case (Print is_n ex)
    assume h: "heap_ext s0 s"
    have pr: "heap_ext s0 s1 \<Longrightarrow> heap_ext s0 (s1\<lparr>out := x\<rparr>)" for s1 x
      by (simp add: heap_ext_def)
    show ?thesis
      unfolding Print eval.simps
      apply (rule ext_bind, rule ext_ev [OF Suc h])
      apply (cases is_n)
       apply simp
       apply (rule ext_bind, erule ext_check_num, simp add: pr)
      apply simp
      apply (rule ext_bind, erule ext_check_bool, simp add: pr)
      done
  qed
  then show ?case by (simp add: keeps_links_def)
qed

lemma bind_args_keeps_frame:
  assumes "bind_args (eval n) ps args e ne s = (r, s')" and "ne < length (heap s)"
  shows "ne < length (heap s') \<and> par (heap s' ! ne) = par (heap s ! ne)"
  using bind_args_ext [OF eval_keeps_links heap_ext_refl, of s n ps args e ne] assms
  by (auto simp: heap_ext_def)

text \<open>
  Once the arguments before a position have been bound, \<open>bind_args\<close> goes on with the
  remaining parameters and arguments from the state reached.
\<close>

lemma bind_args_prefix:
  "length pps = length pre \<Longrightarrow> bind_args ev pps pre e ne s = (Ret u, sa) \<Longrightarrow>
   bind_args ev (pps @ qs) (pre @ rest) e ne s = bind_args ev qs rest e ne sa"
proof (induction pps arbitrary: pre s)
  case Nil
  then show ?case by simp
next
  case (Cons p pps)
  then obtain a pre' where pre: "pre = a # pre'" by (cases pre) auto
  with Cons show ?case
    by (auto simp: bind_def split: prod.splits res.splits option.splits)
qed

text \<open>
  Claim C1. (1) Evaluating a lambda in environment \<open>e\<close> returns a closure that holds the
  address \<open>e\<close> itself and leaves the store as it is: the environment is shared, not copied.
  (2) Calling a closure over \<open>ce\<close> with the right number of arguments from any environment
  \<open>e'\<close> creates a new frame with parent \<open>ce\<close>, binds the arguments in it, each evaluated in
  \<open>e'\<close>, and then runs the body in that frame. (3) When the arguments have been bound, the
  frame the body runs in did not exist before the call and its parent is still \<open>ce\<close>,
  whatever \<open>e'\<close> is. (4) The arguments are evaluated from left to right in the caller's
  environment: once the arguments \<open>pre\<close> before \<open>a\<close> are bound, with state \<open>sa\<close>, the next
  step is to evaluate \<open>a\<close> in \<open>e'\<close> from \<open>sa\<close>; its value is bound to its parameter in the
  new frame \<open>ne\<close>, and the later arguments \<open>post\<close> follow; if \<open>a\<close> does not return, none of
  them is evaluated.
\<close>

theorem C1_lexical_scope:
  "eval (Suc n) (Fun ps body) e s = (Ret (Closure ps body e), s) \<and>
   (eval n f e' s = (Ret (Closure ps body ce), s1) \<and> length args = length ps \<longrightarrow>
      eval (Suc n) (Call f args) e' s
        = bind (bind_args (eval n) ps args e' (length (heap s1))
                  (s1\<lparr>heap := heap s1 @ [\<lparr>vars = [], par = Some ce\<rparr>]\<rparr>))
            (\<lambda>u s3. eval_body (eval n) body (length (heap s1)) VNone s3)) \<and>
   (eval n f e' s = (Ret (Closure ps body ce), s1) \<and> length args = length ps \<and>
    bind_args (eval n) ps args e' (length (heap s1)) (snd (env_new (Some ce) s1)) = (Ret u, s2) \<longrightarrow>
      eval (Suc n) (Call f args) e' s = eval_body (eval n) body (length (heap s1)) VNone s2 \<and>
      length (heap s1) < length (heap s2) \<and>
      par (heap s2 ! length (heap s1)) = Some ce) \<and>
   (length pps = length pre \<and> bind_args (eval n) pps pre e' ne s0 = (Ret u, sa) \<longrightarrow>
      bind_args (eval n) (pps @ p # qs) (pre @ a # post) e' ne s0
        = bind (eval n a e' sa) (\<lambda>v sb.
            case hashkey p of
              None \<Rightarrow> (Raise TypeError, sb)
            | Some k \<Rightarrow> bind_args (eval n) qs post e' ne (env_set ne k v sb)))"
proof (intro conjI impI)
  show "eval (Suc n) (Fun ps body) e s = (Ret (Closure ps body e), s)"
    by simp
next
  assume "eval n f e' s = (Ret (Closure ps body ce), s1) \<and> length args = length ps"
  then show "eval (Suc n) (Call f args) e' s
        = bind (bind_args (eval n) ps args e' (length (heap s1))
                  (s1\<lparr>heap := heap s1 @ [\<lparr>vars = [], par = Some ce\<rparr>]\<rparr>))
            (\<lambda>u s3. eval_body (eval n) body (length (heap s1)) VNone s3)"
    by (simp add: env_new_def)
next
  assume a: "eval n f e' s = (Ret (Closure ps body ce), s1) \<and> length args = length ps \<and>
    bind_args (eval n) ps args e' (length (heap s1)) (snd (env_new (Some ce) s1)) = (Ret u, s2)"
  then show "eval (Suc n) (Call f args) e' s = eval_body (eval n) body (length (heap s1)) VNone s2"
    by (simp add: env_new_def)
  have "length (heap s1) < length (heap (snd (env_new (Some ce) s1)))"
    by (simp add: env_new_def)
  from bind_args_keeps_frame [OF _ this] a
  show "length (heap s1) < length (heap s2)"
    and "par (heap s2 ! length (heap s1)) = Some ce"
    by (auto simp: env_new_def)
next
  assume "length pps = length pre \<and> bind_args (eval n) pps pre e' ne s0 = (Ret u, sa)"
  then show "bind_args (eval n) (pps @ p # qs) (pre @ a # post) e' ne s0
        = bind (eval n a e' sa) (\<lambda>v sb.
            case hashkey p of
              None \<Rightarrow> (Raise TypeError, sb)
            | Some k \<Rightarrow> bind_args (eval n) qs post e' ne (env_set ne k v sb))"
    by (simp add: bind_args_prefix)
qed

text \<open>
  The example: \<open>(f x y)\<close> called from frame 1 of \<open>scope_state\<close>. The arguments are read in
  the caller's frame (\<open>x\<close> is 2 and \<open>y\<close>, unknown to the closure's environment, is 5); the
  body \<open>(- a x)\<close> reads \<open>x\<close> through the closure's environment (1), so the call yields 1.
  In \<open>(f (/ 1 0) z)\<close> the first argument exits before the unbound \<open>z\<close> is looked at.
\<close>

theorem C1_witness:
  "bind_args (eval (Suc (Suc (Suc (Suc 0))))) [SSym ''a'', SSym ''b''] [Var ''x'', Var ''y'']
     (Suc 0) (Suc (Suc 0)) scope_alloc = (Ret (), scope_bound) \<and>
   eval (Suc (Suc (Suc (Suc (Suc 0))))) (Call (Var ''f'') [Var ''x'', Var ''y'']) (Suc 0) scope_state
     = (Ret (VInt 1), scope_bound) \<and>
   par (heap scope_bound ! Suc (Suc 0)) = Some 0 \<and>
   eval (Suc (Suc (Suc (Suc (Suc 0)))))
     (Call (Var ''f'') [Op ''/'' [Val (VInt 1), Val (VInt 0)], Var ''z'']) (Suc 0) scope_state
     = (Exit, scope_alloc\<lparr>out := [''Error: Division by zero'']\<rparr>)"
  using C1_lexical_scope [of "Suc (Suc (Suc (Suc 0)))" "[SSym ''a'', SSym ''b'']"
          "[Op ''-'' [Var ''a'', Var ''x'']]" 0 scope_state
          "Var ''f''" "Suc 0" 0 scope_state "[Var ''x'', Var ''y'']" "()" scope_bound
          "[SSym ''a'']" "[Var ''x'']" "Suc (Suc 0)" scope_alloc
          "scope_alloc\<lparr>heap := heap scope_state
              @ [\<lparr>vars = [(KStr ''a'', VInt 2)], par = Some 0\<rparr>]\<rparr>"
          "SSym ''b''" "[]" "Var ''y''" "[]"]
        C1_lexical_scope [of "Suc (Suc (Suc (Suc 0)))" "[SSym ''a'', SSym ''b'']"
          "[Op ''-'' [Var ''a'', Var ''x'']]" 0 scope_state
          "Var ''f''" "Suc 0" 0 scope_state
          "[Op ''/'' [Val (VInt 1), Val (VInt 0)], Var ''z'']" "()" scope_bound
          "[]" "[]" "Suc (Suc 0)" scope_alloc scope_alloc
          "SSym ''a''" "[SSym ''b'']" "Op ''/'' [Val (VInt 1), Val (VInt 0)]" "[Var ''z'']"]
  by (simp add: scope_state_def scope_alloc_def scope_bound_def env_new_def env_set_def
                arity_check_def apply_op_def item_def error_runtime_def bind_def)

text \<open>
  Lookup is a matter apart from the frame structure above. \<open>Env.find\<close> goes on to the
  parent only if the parent holds at least one binding. In
  \<open>(define x 1) (define g (fun () (fun () x))) (print-num ((g)))\<close> the inner closure
  captures the empty call frame of \<open>g\<close>; its own call frame has that empty frame as parent,
  and the lookup of \<open>x\<close> ends there although the global frame binds \<open>x\<close>.
\<close>

lemma lookup_stops_at_empty_parent:
  "run (Suc (Suc (Suc (Suc (Suc (Suc 0))))))
     [Def (SSym ''x'') (Val (VInt 1)),
      Def (SSym ''g'') (Fun [] [Fun [] [Var ''x'']]),
      Print True (Call (Call (Var ''g'') []) [])]
   = (Exit,
      \<lparr>heap = [\<lparr>vars = [(KStr ''x'', VInt 1), (KStr ''g'', Closure [] [Fun [] [Var ''x'']] 0)],
                 par = None\<rparr>,
               \<lparr>vars = [], par = Some 0\<rparr>,
               \<lparr>vars = [], par = Some (Suc 0)\<rparr>],
       out = [''Error: Variable x not defined'']\<rparr>)"
  by code_simp
section \<open>Properties of the lexer\<close>

lemma takeWhile_stop: "\<not> p c \<Longrightarrow> takeWhile p (xs @ c # ys) = takeWhile p xs"
  by (induction xs) simp_all

lemma dropWhile_stop: "\<not> p c \<Longrightarrow> dropWhile p (xs @ c # ys) = dropWhile p xs @ c # ys"
  by (induction xs) simp_all

lemma not_lexeme_char:
  assumes "\<not> lexeme_char nd c"
  shows "\<not> digit nd c" "\<not> nonzero_digit c" "\<not> lower c" "\<not> ident_char c"
    "c \<noteq> ord_of CHR ''t''" "c \<noteq> ord_of CHR ''f''" "match_token nd (c # ys) = None"
  using assms
  by (auto simp: lexeme_char_def digit_def nonzero_digit_def lower_def ident_char_def
                 text_of_def ord_of_def)

lemma match_token_before_stop:
  assumes "\<not> lexeme_char nd c"
  shows "match_token nd ((x # xs) @ c # ys)
           = map_option (\<lambda>(t, rest). (t, rest @ c # ys)) (match_token nd (x # xs))"
proof (cases xs)
  case Nil
  then show ?thesis
    using not_lexeme_char(1-6) [OF assms] by simp
next
  case (Cons y zs)
  then show ?thesis
    using not_lexeme_char(1-6) [OF assms]
    by (simp add: takeWhile_stop dropWhile_stop)
qed

text \<open>
  Claim C3, as the code has it. \<open>tokenize\<close> has no error exit. A code point that occurs in
  no lexeme (it is no parenthesis, \<open>#\<close>, operator character, lowercase ASCII letter or
  Unicode decimal digit) is skipped and merely separates lexemes: the token stream of
  \<open>xs @ c # ys\<close> is the token stream of \<open>xs\<close> followed by that of \<open>ys\<close>. This holds for
  every text of code points and every table \<open>nd\<close> of non-ASCII decimal digits.
\<close>

theorem C3_unrecognized_char_skipped:
  "\<not> lexeme_char nd c \<Longrightarrow> tokenize nd (xs @ c # ys) = tokenize nd xs @ tokenize nd ys"
proof (induction nd xs rule: tokenize.induct)
  case (1 nd)
  then show ?case by (simp add: not_lexeme_char(7) del: match_token.simps)
next
  case (2 nd x xs)
  show ?case
  proof (cases "match_token nd (x # xs)")
    case None
    with 2 show ?thesis
      using match_token_before_stop [OF "2.prems", of x xs ys]
      by (simp del: match_token.simps)
  next
    case (Some tr)
    obtain t rest where tr: "tr = (t, rest)" by (cases tr)
    with 2 Some show ?thesis
      using match_token_before_stop [OF "2.prems", of x xs ys]
      by (simp del: match_token.simps)
  qed
qed

theorem C3_witness:
  "\<not> lexeme_char unicode_nd (ord_of CHR ''@'') \<and>
   tokenize unicode_nd (text_of ''(print-num 1'' @ ord_of CHR ''@'' # text_of '')'')
     = tokenize unicode_nd (text_of ''(print-num 1'') @ tokenize unicode_nd (text_of '')'') \<and>
   \<not> lexeme_char unicode_nd 0x3A9 \<and>
   tokenize unicode_nd (text_of ''(print-num 1'' @ 0x3A9 # text_of '')'')
     = tokenize unicode_nd (text_of ''(print-num 1'') @ tokenize unicode_nd (text_of '')'')"
  using C3_unrecognized_char_skipped [of unicode_nd "ord_of CHR ''@''" "text_of ''(print-num 1''"
          "text_of '')''"]
        C3_unrecognized_char_skipped [of unicode_nd "0x3A9" "text_of ''(print-num 1''"
          "text_of '')''"]
  by (simp add: lexeme_char_def digit_def lower_def text_of_def ord_of_def unicode_nd_def
                nd_ranges_def)

text \<open>
  The claim as stated fails: \<open>@\<close> is matched by no alternative, yet the text
  \<open>(print-num 1@)\<close> gives the token stream of \<open>(print-num 1)\<close>.
\<close>

theorem C3_counterexample:
  "match_token unicode_nd (text_of ''@)'') = None \<and>
   tokenize unicode_nd (text_of ''(print-num 1@)'')
     = map text_of [''('', ''print-num'', ''1'', '')'']"
  by (simp add: digit_def nonzero_digit_def lower_def ident_char_def text_of_def ord_of_def)

text \<open>
  A Unicode decimal digit, on the other hand, is a lexeme character: after an ASCII digit
  from 1 to 9 it is lexed into the integer token. Here U+0663 (ARABIC-INDIC DIGIT THREE)
  follows \<open>1\<close>.
\<close>

lemma unicode_digit_extends_integer:
  "lexeme_char unicode_nd 0x663 \<and>
   tokenize unicode_nd (text_of ''(print-num 1'' @ 0x663 # text_of '')'')
     = [text_of ''('', text_of ''print-num'', [ord_of CHR ''1'', 0x663], text_of '')'']"
  by (simp add: lexeme_char_def digit_def nonzero_digit_def lower_def ident_char_def text_of_def
                ord_of_def unicode_nd_def nd_ranges_def)

section \<open>Properties of the AST builder\<close>

text \<open>
  Claim C5, as the code has it. \<open>parse_stmt\<close> accepts \<open>(define NAME EXPR)\<close> whenever the
  list has exactly three elements and \<open>EXPR\<close> is accepted as an expression; \<open>NAME\<close> is
  stored in the \<open>Def\<close> node unchecked. The only syntax error of the form itself is a wrong
  number of elements.
\<close>

theorem C5_define_name_unchecked:
  "parse_stmt (SList [SSym ''define'', name, ex]) = bindp (parse_exp ex) (\<lambda>v. Inr (Def name v)) \<and>
   (length rest \<noteq> 2 \<longrightarrow>
      parse_stmt (SList (SSym ''define'' # rest))
        = Inl (''syntax error, unexpected '' @ quoted ''define''))"
proof -
  have "parse_stmt (SList (SSym ''define'' # rest))
          = Inl (''syntax error, unexpected '' @ quoted ''define'')" if "length rest \<noteq> 2"
  proof (cases rest)
    case Nil
    then show ?thesis by (simp add: error_syntax_def truthy_def)
  next
    case (Cons a as)
    with that show ?thesis
      by (cases as; cases "tl as") (simp_all add: error_syntax_def truthy_def)
  qed
  then show ?thesis by simp
qed

theorem C5_witness:
  "parse_stmt (SList [SSym ''define'', SInt 1, SInt 2]) = Inr (Def (SInt 1) (Val (VInt 2))) \<and>
   length [SSym ''x''] \<noteq> 2 \<and>
   parse_stmt (SList [SSym ''define'', SSym ''x''])
     = Inl (''syntax error, unexpected '' @ quoted ''define'')"
  using C5_define_name_unchecked [of "SInt 1" "SInt 2" "[SSym ''x'']"]
  by (simp add: bindp_def)

text \<open>
  The claim as stated fails: an operator spelling and a list are both accepted as the name.
\<close>

theorem C5_counterexample:
  "parse_stmt (SList [SSym ''define'', SSym ''+'', SInt 1]) = Inr (Def (SSym ''+'') (Val (VInt 1))) \<and>
   parse_stmt (SList [SSym ''define'', SList [SSym ''a''], SInt 1])
     = Inr (Def (SList [SSym ''a'']) (Val (VInt 1)))"
  by (simp add: bindp_def)

text \<open>
  A list accepted as a name fails only when the \<open>Def\<close> node is evaluated, and then as an
  uncaught \<open>TypeError\<close> (unhashable key), not as a syntax error.
\<close>

lemma unhashable_name:
  "run (Suc (Suc 0)) [Def (SList [SSym ''a'']) (Val (VInt 1))] = (Raise TypeError, init_state)"
  by code_simp

end
